theory Spec2Isabelle
  imports Complex_Main
begin

section \<open>Strings of the Python source\<close>

text \<open>
  A Python \<open>str\<close> is modelled as a \<open>string\<close>: one \<open>char\<close> per code point, for
  texts whose code points are below 256. The operations below are the ones the
  analyzer and the classifier call on such texts.
\<close>

definition TAB :: char where
  "TAB = CHR 0x09"

definition NL :: char where
  "NL = CHR 0x0A"

text \<open>\<open>str.lower()\<close> on code points below 256: the ASCII capitals and the Latin-1
  capitals (all of 0xC0..0xDE but the multiplication sign 0xD7) move up by 32.\<close>

definition lower_char :: "char \<Rightarrow> char" where
  "lower_char c =
     (let n = (of_char c :: nat)
      in if (65 \<le> n \<and> n \<le> 90) \<or> (192 \<le> n \<and> n \<le> 222 \<and> n \<noteq> 215)
         then char_of (n + 32) else c)"

definition lower :: "string \<Rightarrow> string" where
  "lower s = map lower_char s"

text \<open>\<open>s.startswith(p)\<close> and \<open>p in s\<close>.\<close>

fun startswith :: "string \<Rightarrow> string \<Rightarrow> bool" where
  "startswith s [] = True"
| "startswith [] (p # ps) = False"
| "startswith (c # cs) (p # ps) = (c = p \<and> startswith cs ps)"

fun str_in :: "string \<Rightarrow> string \<Rightarrow> bool" where
  "str_in p [] = (p = [])"
| "str_in p (c # cs) = (startswith (c # cs) p \<or> str_in p cs)"

text \<open>\<open>any(pattern in s for pattern in patterns)\<close>.\<close>

definition any_pattern_in :: "string list \<Rightarrow> string \<Rightarrow> bool" where
  "any_pattern_in patterns s = list_ex (\<lambda>pattern. str_in pattern s) patterns"

text \<open>\<open>s.rfind(c)\<close> for a one-character \<open>c\<close>: the last index of \<open>c\<close>, or -1.\<close>

fun rfind_from :: "char \<Rightarrow> string \<Rightarrow> int \<Rightarrow> int \<Rightarrow> int" where
  "rfind_from c [] i found = found"
| "rfind_from c (x # xs) i found = rfind_from c xs (i + 1) (if x = c then i else found)"

definition rfind :: "char \<Rightarrow> string \<Rightarrow> int" where
  "rfind c s = rfind_from c s 0 (- 1)"

text \<open>
  \<open>os.path.splitext\<close> (POSIX): the extension starts at the last dot of the last
  path component, unless that component has only dots before it. The loop skips the
  leading dots of the component, as the library's \<open>_splitext\<close> does.
\<close>

function splitext_loop :: "string \<Rightarrow> nat \<Rightarrow> nat \<Rightarrow> (string \<times> string) option" where
  "splitext_loop p filenameIndex dotIndex =
     (if filenameIndex < dotIndex
      then (if take 1 (drop filenameIndex p) \<noteq> ''.''
            then Some (take dotIndex p, drop dotIndex p)
            else splitext_loop p (filenameIndex + 1) dotIndex)
      else None)"
  by pat_completeness auto
termination
  by (relation "measure (\<lambda>(p, filenameIndex, dotIndex). dotIndex - filenameIndex)") auto

declare splitext_loop.simps [simp del]

definition splitext :: "string \<Rightarrow> string \<times> string" where
  "splitext p =
     (let sepIndex = rfind (CHR ''/'') p;
          dotIndex = rfind (CHR ''.'') p
      in if dotIndex > sepIndex
         then (case splitext_loop p (nat (sepIndex + 1)) (nat dotIndex) of
                 Some r \<Rightarrow> r
               | None \<Rightarrow> (p, []))
         else (p, []))"

section \<open>The classifier\<close>

datatype ContributionType =
    PRODUCTION_CODE
  | TESTS
  | DOCUMENTATION
  | SPECS_CONFIG
  | INFRASTRUCTURE
  | STYLING
  | OTHER

record FileClassification =
  file_path :: string
  contribution_type :: ContributionType
  language :: "string option"
  lines_added :: int
  lines_removed :: int

definition TEST_PATTERNS :: "string list" where
  "TEST_PATTERNS =
     [''test_'', ''_test.'', ''.test.'', ''tests/'', ''/test/'', ''spec_'', ''_spec.'',
      ''.spec.'', ''specs/'', ''/spec/'', ''__tests__/'', ''.tests.'', ''testing/'',
      ''unittest'', ''pytest'', ''jest'', ''mocha'', ''cypress/'', ''e2e/'']"

definition DOC_PATTERNS :: "string list" where
  "DOC_PATTERNS =
     [''readme'', ''changelog'', ''contributing'', ''license'', ''authors'',
      ''docs/'', ''/doc/'', ''documentation/'', ''.md'', ''.rst'', ''.txt'',
      ''wiki/'', ''guide'', ''manual'', ''api-docs/'']"

definition DOC_EXTENSIONS :: "string list" where
  "DOC_EXTENSIONS = [''.md'', ''.rst'', ''.txt'', ''.adoc'', ''.wiki'']"

definition SPEC_CONFIG_PATTERNS :: "string list" where
  "SPEC_CONFIG_PATTERNS =
     [''package.json'', ''tsconfig'', ''webpack'', ''babel'', ''eslint'', ''prettier'',
      ''.yaml'', ''.yml'', ''.json'', ''.toml'', ''.ini'', ''.cfg'', ''.conf'',
      ''openapi'', ''swagger'', ''schema'', ''.env'', ''config/'', ''/config'',
      ''settings'', ''.editorconfig'', ''.gitignore'', ''.dockerignore'',
      ''pyproject.toml'', ''setup.py'', ''setup.cfg'', ''requirements'',
      ''Gemfile'', ''Cargo.toml'', ''go.mod'', ''pom.xml'', ''build.gradle'',
      ''.github/'', ''.gitlab-ci'', ''azure-pipelines'', ''Jenkinsfile'',
      ''.travis'', ''circle.yml'', ''bitbucket-pipelines'']"

definition INFRA_PATTERNS :: "string list" where
  "INFRA_PATTERNS =
     [''dockerfile'', ''docker-compose'', ''kubernetes/'', ''k8s/'', ''helm/'',
      ''terraform/'', ''.tf'', ''ansible/'', ''puppet/'', ''chef/'',
      ''cloudformation'', ''pulumi/'', ''vagrant'', ''makefile'', ''cmake'',
      ''deploy/'', ''deployment/'', ''infra/'', ''infrastructure/'',
      ''scripts/deploy'', ''scripts/build'', ''.sh'', ''nginx'', ''apache'']"

definition STYLE_PATTERNS :: "string list" where
  "STYLE_PATTERNS =
     [''.css'', ''.scss'', ''.sass'', ''.less'', ''.styl'', ''.styled.'',
      ''styles/'', ''/style/'', ''theme'', ''.tailwind'']"

definition LANGUAGE_MAP :: "(string \<times> string) list" where
  "LANGUAGE_MAP =
     [(''.py'', ''Python''),
      (''.js'', ''JavaScript''),
      (''.ts'', ''TypeScript''),
      (''.tsx'', ''TypeScript (React)''),
      (''.jsx'', ''JavaScript (React)''),
      (''.cs'', ''C#''),
      (''.java'', ''Java''),
      (''.go'', ''Go''),
      (''.rs'', ''Rust''),
      (''.rb'', ''Ruby''),
      (''.php'', ''PHP''),
      (''.swift'', ''Swift''),
      (''.kt'', ''Kotlin''),
      (''.scala'', ''Scala''),
      (''.c'', ''C''),
      (''.cpp'', ''C++''),
      (''.h'', ''C/C++ Header''),
      (''.hpp'', ''C++ Header''),
      (''.vue'', ''Vue''),
      (''.svelte'', ''Svelte''),
      (''.html'', ''HTML''),
      (''.sql'', ''SQL''),
      (''.r'', ''R''),
      (''.m'', ''MATLAB/Objective-C''),
      (''.pl'', ''Perl''),
      (''.lua'', ''Lua''),
      (''.dart'', ''Dart''),
      (''.elm'', ''Elm''),
      (''.ex'', ''Elixir''),
      (''.exs'', ''Elixir''),
      (''.erl'', ''Erlang''),
      (''.hs'', ''Haskell''),
      (''.clj'', ''Clojure''),
      (''.fs'', ''F#''),
      (''.fsx'', ''F#'')]"

text \<open>The truth value Python gives an optional string: \<open>None\<close> and the empty
  string are false.\<close>

definition truthy :: "string option \<Rightarrow> bool" where
  "truthy l = (case l of None \<Rightarrow> False | Some s \<Rightarrow> s \<noteq> [])"

definition classify :: "string \<Rightarrow> int \<Rightarrow> int \<Rightarrow> FileClassification" where
  "classify path added removed =
     (let file_lower = lower path;
          ext = lower (snd (splitext path));
          lang = map_of LANGUAGE_MAP ext
      in if any_pattern_in TEST_PATTERNS file_lower
         then \<lparr>file_path = path, contribution_type = TESTS, language = lang,
               lines_added = added, lines_removed = removed\<rparr>
         else if ext \<in> set DOC_EXTENSIONS \<or> any_pattern_in DOC_PATTERNS file_lower
         then \<lparr>file_path = path, contribution_type = DOCUMENTATION,
               language = Some ''Documentation'',
               lines_added = added, lines_removed = removed\<rparr>
         else if any_pattern_in INFRA_PATTERNS file_lower
         then \<lparr>file_path = path, contribution_type = INFRASTRUCTURE,
               language = (if truthy lang then lang else Some ''Infrastructure''),
               lines_added = added, lines_removed = removed\<rparr>
         else if any_pattern_in SPEC_CONFIG_PATTERNS file_lower
         then \<lparr>file_path = path, contribution_type = SPECS_CONFIG,
               language = Some ''Configuration'',
               lines_added = added, lines_removed = removed\<rparr>
         else if any_pattern_in STYLE_PATTERNS file_lower
         then \<lparr>file_path = path, contribution_type = STYLING,
               language = Some ''CSS/Styling'',
               lines_added = added, lines_removed = removed\<rparr>
         else if truthy lang
         then \<lparr>file_path = path, contribution_type = PRODUCTION_CODE, language = lang,
               lines_added = added, lines_removed = removed\<rparr>
         else \<lparr>file_path = path, contribution_type = OTHER, language = None,
               lines_added = added, lines_removed = removed\<rparr>)"


section \<open>Dates and times\<close>

text \<open>
  A \<open>datetime\<close> is its wall-clock reading, in microseconds since
  0001-01-01T00:00:00, and its \<open>tzinfo\<close>: \<open>None\<close> for a naive value, the offset
  from UTC in microseconds for an aware one (a fixed-offset zone, which is what
  \<open>astimezone()\<close> and \<open>fromisoformat\<close> attach).
\<close>

datatype datetime = DateTime (wall: int) (tzinfo: "int option")

datatype error =
    TypeError
  | OverflowError
  | ZeroDivisionError
  | PermissionError
  | UnicodeDecodeError
  | OSError

definition DAY :: int where
  "DAY = 86400000000"

text \<open>The first wall-clock reading after 9999-12-31T23:59:59.999999.\<close>

definition MAX_WALL :: int where
  "MAX_WALL = 3652059 * DAY"

text \<open>Ordering comparisons raise \<open>TypeError\<close> between a naive and an aware value;
  two aware values are compared as instants.\<close>

definition dt_le :: "datetime \<Rightarrow> datetime \<Rightarrow> error + bool" where
  "dt_le a b =
     (case (tzinfo a, tzinfo b) of
        (None, None) \<Rightarrow> Inr (wall a \<le> wall b)
      | (Some oa, Some ob) \<Rightarrow> Inr (wall a - oa \<le> wall b - ob)
      | _ \<Rightarrow> Inl TypeError)"

definition dt_lt :: "datetime \<Rightarrow> datetime \<Rightarrow> error + bool" where
  "dt_lt a b =
     (case (tzinfo a, tzinfo b) of
        (None, None) \<Rightarrow> Inr (wall a < wall b)
      | (Some oa, Some ob) \<Rightarrow> Inr (wall a - oa < wall b - ob)
      | _ \<Rightarrow> Inl TypeError)"

text \<open>\<open>d + timedelta(microseconds=delta)\<close>: the zone is kept, and a result outside
  the years 1..9999 raises \<open>OverflowError\<close>.\<close>

definition dt_add :: "datetime \<Rightarrow> int \<Rightarrow> error + datetime" where
  "dt_add d delta =
     (let w = wall d + delta
      in if 0 \<le> w \<and> w < MAX_WALL then Inr (DateTime w (tzinfo d)) else Inl OverflowError)"

text \<open>\<open>d.replace(hour=0, minute=0, second=0, microsecond=0)\<close> and
  \<open>d.replace(hour=23, minute=59, second=59, microsecond=999999)\<close>.\<close>

definition start_of_day :: "datetime \<Rightarrow> datetime" where
  "start_of_day d = DateTime (wall d - wall d mod DAY) (tzinfo d)"

definition end_of_day :: "datetime \<Rightarrow> datetime" where
  "end_of_day d = DateTime (wall d - wall d mod DAY + (DAY - 1)) (tzinfo d)"

text \<open>\<open>d.weekday()\<close>, Monday being 0: the first of January of the year 1 is a Monday.\<close>

definition weekday :: "datetime \<Rightarrow> int" where
  "weekday d = (wall d div DAY) mod 7"

text \<open>\<open>min(dates)\<close> and \<open>max(dates)\<close> on a list with the first element \<open>m\<close>: each
  further element is compared with the one kept so far.\<close>

fun py_min :: "datetime \<Rightarrow> datetime list \<Rightarrow> error + datetime" where
  "py_min m [] = Inr m"
| "py_min m (d # ds) =
     (case dt_lt d m of Inl e \<Rightarrow> Inl e | Inr b \<Rightarrow> py_min (if b then d else m) ds)"

fun py_max :: "datetime \<Rightarrow> datetime list \<Rightarrow> error + datetime" where
  "py_max m [] = Inr m"
| "py_max m (d # ds) =
     (case dt_lt m d of Inl e \<Rightarrow> Inl e | Inr b \<Rightarrow> py_max (if b then d else m) ds)"

section \<open>Records of the analyzer\<close>

record CommitInfo =
  commit_hash :: string
  commit_author :: string
  commit_email :: string
  commit_date :: datetime
  commit_message :: string
  commit_files_changed :: int
  commit_lines_added :: int
  commit_lines_removed :: int
  file_classifications :: "FileClassification list"

text \<open>A \<open>dict\<close> with integer values is an association list in insertion order, with
  one entry per key. \<open>dict_add k v d\<close> is \<open>d[k] += v\<close> on a \<open>defaultdict(int)\<close>.\<close>

fun dict_add :: "'k \<Rightarrow> int \<Rightarrow> ('k \<times> int) list \<Rightarrow> ('k \<times> int) list" where
  "dict_add k v [] = [(k, 0 + v)]"
| "dict_add k v ((k', c) # d) =
     (if k' = k then (k', c + v) # d else (k', c) # dict_add k v d)"

definition dict_values_sum :: "('k \<times> int) list \<Rightarrow> int" where
  "dict_values_sum d = sum_list (map snd d)"

record RepoStats =
  repo_name :: string
  repo_path :: string
  total_commits :: int
  total_lines_added :: int
  total_lines_removed :: int
  total_files_changed :: int
  first_commit_date :: "datetime option"
  last_commit_date :: "datetime option"
  languages :: "(string \<times> int) list"
  contribution_types :: "(ContributionType \<times> int) list"
  commits :: "CommitInfo list"
  technologies :: "string list"
  description :: string

record ActivitySummary =
  period_start :: datetime
  period_end :: datetime
  period_label :: string
  summary_commits :: int
  summary_lines_added :: int
  summary_lines_removed :: int
  summary_files_changed :: int
  repos_active :: int
  contribution_breakdown :: "(ContributionType \<times> int) list"
  language_breakdown :: "(string \<times> int) list"

record GitAnalyzer =
  author_email :: "string option"
  author_name :: "string option"
  repos :: "RepoStats list"

section \<open>The outside world of one analysis\<close>

text \<open>The outcomes of \<open>subprocess.run\<close>: the process ended with a return code and
  an output, it timed out, the program was not found (both exceptions carry a
  message), or another exception left the call, such as \<open>PermissionError\<close> when the
  program may not be executed or \<open>UnicodeDecodeError\<close> when its output is not
  text.\<close>

datatype proc_outcome =
    Completed int string
  | TimeoutExpired string
  | FileNotFoundError string
  | Raised error

text \<open>
  What the analyzer reads from outside: \<open>os.path.isdir\<close>, \<open>os.path.exists\<close>,
  \<open>os.listdir\<close> and \<open>os.path.abspath\<close> (the last two may raise), the description
  read from the readme (\<open>_get_repo_description\<close> catches every exception of its
  reads), the external command (by working directory and argument list), the
  library's ISO date parser (\<open>None\<close> where it raises \<open>ValueError\<close>) and the readings
  of \<open>datetime.now()\<close>, numbered in the order of the calls.
\<close>

record world =
  isdir :: "string \<Rightarrow> bool"
  path_exists :: "string \<Rightarrow> bool"
  listdir :: "string \<Rightarrow> error + string list"
  abspath :: "string \<Rightarrow> error + string"
  get_repo_description :: "string \<Rightarrow> string"
  subprocess_run :: "string \<Rightarrow> string list \<Rightarrow> proc_outcome"
  fromisoformat :: "string \<Rightarrow> datetime option"
  now_naive :: "nat \<Rightarrow> int"

text \<open>\<open>_run_git_command\<close> catches the timeout and the missing program; any other
  exception leaves it.\<close>

definition run_git_command :: "world \<Rightarrow> string \<Rightarrow> string list \<Rightarrow> error + (bool \<times> string)" where
  "run_git_command w path args =
     (case subprocess_run w path (''git'' # args) of
        Completed returncode out \<Rightarrow> Inr (returncode = 0, out)
      | TimeoutExpired msg \<Rightarrow> Inr (False, msg)
      | FileNotFoundError msg \<Rightarrow> Inr (False, msg)
      | Raised e \<Rightarrow> Inl e)"

text \<open>\<open>os.path.join\<close> of two parts and \<open>os.path.basename\<close> (POSIX).\<close>

definition path_join :: "string \<Rightarrow> string \<Rightarrow> string" where
  "path_join a b =
     (if startswith b ''/'' then b
      else if a = [] \<or> last a = CHR ''/'' then a @ b
      else a @ ''/'' @ b)"

definition basename :: "string \<Rightarrow> string" where
  "basename p = drop (nat (rfind (CHR ''/'') p + 1)) p"

section \<open>Detecting technologies\<close>

definition tech_indicators :: "(string \<times> string list) list" where
  "tech_indicators =
     [(''package.json'', [''Node.js'', ''JavaScript'']),
      (''tsconfig.json'', [''TypeScript'']),
      (''requirements.txt'', [''Python'']),
      (''pyproject.toml'', [''Python'']),
      (''Pipfile'', [''Python'']),
      (''Gemfile'', [''Ruby'']),
      (''Cargo.toml'', [''Rust'']),
      (''go.mod'', [''Go'']),
      (''pom.xml'', [''Java'', ''Maven'']),
      (''build.gradle'', [''Java'', ''Gradle'']),
      (''*.csproj'', [''C#'', ''.NET'']),
      (''*.sln'', [''C#'', ''.NET'']),
      (''Dockerfile'', [''Docker'']),
      (''docker-compose.yml'', [''Docker'']),
      (''kubernetes/'', [''Kubernetes'']),
      (''terraform/'', [''Terraform'']),
      (''.github/workflows/'', [''GitHub Actions'']),
      (''angular.json'', [''Angular'']),
      (''next.config.js'', [''Next.js'']),
      (''nuxt.config.js'', [''Nuxt.js'']),
      (''vue.config.js'', [''Vue.js'']),
      (''tailwind.config.js'', [''Tailwind CSS'']),
      (''webpack.config.js'', [''Webpack'']),
      (''.eslintrc'', [''ESLint'']),
      (''jest.config'', [''Jest'']),
      (''pytest.ini'', [''Pytest'']),
      (''setup.py'', [''Python''])]"

text \<open>\<open>s.rstrip('/')\<close>, and the set of the technologies found as a list without
  repetition: \<open>technologies.update(techs)\<close>.\<close>

definition rstrip_slash :: "string \<Rightarrow> string" where
  "rstrip_slash s = rev (dropWhile (\<lambda>c. c = CHR ''/'') (rev s))"

definition set_update :: "string list \<Rightarrow> string list \<Rightarrow> string list" where
  "set_update found techs = foldl (\<lambda>acc t. List.insert t acc) found techs"

text \<open>\<open>sorted\<close> on strings without repetition: the order of the code points,
  a proper prefix before its extensions.\<close>

fun str_less :: "string \<Rightarrow> string \<Rightarrow> bool" where
  "str_less [] [] = False"
| "str_less [] (y # ys) = True"
| "str_less (x # xs) [] = False"
| "str_less (x # xs) (y # ys) =
     ((of_char x :: nat) < of_char y \<or> (x = y \<and> str_less xs ys))"

fun insert_sorted :: "string \<Rightarrow> string list \<Rightarrow> string list" where
  "insert_sorted s [] = [s]"
| "insert_sorted s (t # ts) = (if str_less t s then t # insert_sorted s ts else s # t # ts)"

definition sorted_strings :: "string list \<Rightarrow> string list" where
  "sorted_strings xs = foldr insert_sorted xs []"

text \<open>
  The loop of \<open>_detect_technologies\<close> over the indicators: a pattern with a star is
  looked for in the names that \<open>os.listdir\<close> gives (the call is not guarded, so
  its exception leaves the function); an indicator ending with a slash is a
  directory, any other a file.
\<close>

fun detect_loop ::
    "world \<Rightarrow> string \<Rightarrow> string list \<Rightarrow> (string \<times> string list) list \<Rightarrow> error + string list" where
  "detect_loop w path found [] = Inr found"
| "detect_loop w path found ((indicator, techs) # rest) =
     (if CHR ''*'' \<in> set indicator
      then (case listdir w path of
              Inl e \<Rightarrow> Inl e
            | Inr items \<Rightarrow>
                detect_loop w path
                  (if list_ex (\<lambda>item. str_in (filter (\<lambda>c. c \<noteq> CHR ''*'') indicator) item) items
                   then set_update found techs else found) rest)
      else if indicator \<noteq> [] \<and> last indicator = CHR ''/''
      then detect_loop w path
             (if isdir w (path_join path (rstrip_slash indicator))
              then set_update found techs else found) rest
      else detect_loop w path
             (if path_exists w (path_join path indicator)
              then set_update found techs else found) rest)"

definition detect_technologies :: "world \<Rightarrow> string \<Rightarrow> error + string list" where
  "detect_technologies w path =
     (case detect_loop w path [] tech_indicators of
        Inl e \<Rightarrow> Inl e
      | Inr found \<Rightarrow> Inr (sorted_strings found))"

section \<open>Parsing the log\<close>

text \<open>\<open>str.isspace()\<close> on code points below 256, and \<open>str.strip()\<close>.\<close>

definition is_space :: "char \<Rightarrow> bool" where
  "is_space c =
     (let n = (of_char c :: nat)
      in (9 \<le> n \<and> n \<le> 13) \<or> (28 \<le> n \<and> n \<le> 32) \<or> n = 133 \<or> n = 160)"

definition strip :: "string \<Rightarrow> string" where
  "strip s = rev (dropWhile is_space (rev (dropWhile is_space s)))"

text \<open>\<open>s.split(c, n)\<close>: at most \<open>n\<close> cuts, from the left; \<open>s.split(c)\<close> cuts
  everywhere.\<close>

fun split_max :: "char \<Rightarrow> nat \<Rightarrow> string \<Rightarrow> string list" where
  "split_max c 0 s = [s]"
| "split_max c (Suc n) [] = [[]]"
| "split_max c (Suc n) (x # xs) =
     (if x = c then [] # split_max c n xs
      else (case split_max c (Suc n) xs of
              [] \<Rightarrow> [[x]]
            | l # ls \<Rightarrow> (x # l) # ls))"

definition split :: "char \<Rightarrow> string \<Rightarrow> string list" where
  "split c s = split_max c (length s) s"

text \<open>\<open>s.replace('Z', '+00:00')\<close>.\<close>

definition replace_Z :: "string \<Rightarrow> string" where
  "replace_Z s = concat (map (\<lambda>c. if c = CHR ''Z'' then ''+00:00'' else [c]) s)"

text \<open>\<open>\d\<close> on code points below 256, and \<open>int(s)\<close> on a string of such digits.\<close>

definition is_digit :: "char \<Rightarrow> bool" where
  "is_digit c = (let n = (of_char c :: nat) in 48 \<le> n \<and> n \<le> 57)"

definition py_int :: "string \<Rightarrow> int" where
  "py_int s = foldl (\<lambda>acc c. 10 * acc + (int (of_char c) - 48)) 0 s"

text \<open>
  \<open>re.match(r'^(\d+|-)\t(\d+|-)\t(.+)$', line)\<close>, with the three groups. A count is
  the text before the next tab, and it is a run of digits or a single dash; the
  path is the rest, not empty and without a newline, but for one newline that may
  end the text.
\<close>

definition count_group :: "string \<Rightarrow> bool" where
  "count_group g = (g = ''-'' \<or> (g \<noteq> [] \<and> list_all is_digit g))"

definition cut_at_tab :: "string \<Rightarrow> (string \<times> string) option" where
  "cut_at_tab s =
     (case dropWhile (\<lambda>c. c \<noteq> TAB) s of
        [] \<Rightarrow> None
      | t # rest \<Rightarrow> Some (takeWhile (\<lambda>c. c \<noteq> TAB) s, rest))"

definition numstat_match :: "string \<Rightarrow> (string \<times> string \<times> string) option" where
  "numstat_match line =
     (case cut_at_tab line of
        None \<Rightarrow> None
      | Some (g1, r1) \<Rightarrow>
          if \<not> count_group g1 then None
          else (case cut_at_tab r1 of
                  None \<Rightarrow> None
                | Some (g2, r2) \<Rightarrow>
                    if \<not> count_group g2 then None
                    else (let g3 = (if r2 \<noteq> [] \<and> last r2 = NL then butlast r2 else r2)
                          in if g3 \<noteq> [] \<and> NL \<notin> set g3 then Some (g1, g2, g3) else None)))"

text \<open>The state of the loop over the lines: \<open>stats.commits\<close>, \<open>current_commit\<close>, the
  two counters, and the number of calls of \<open>datetime.now()\<close> made so far.\<close>

record parse_state =
  ps_commits :: "CommitInfo list"
  current_commit :: "CommitInfo option"
  ps_languages :: "(string \<times> int) list"
  ps_contribution_types :: "(ContributionType \<times> int) list"
  now_calls :: nat

definition is_commit_line :: "string \<Rightarrow> bool" where
  "is_commit_line line =
     (CHR ''|'' \<in> set line \<and> 4 \<le> count_list line (CHR ''|'')
      \<and> length (split_max (CHR ''|'') 4 line) = 5)"

definition open_commit :: "world \<Rightarrow> parse_state \<Rightarrow> string \<Rightarrow> parse_state" where
  "open_commit w st line =
     (let parts = split_max (CHR ''|'') 4 line;
          saved = (case current_commit st of
                     Some c \<Rightarrow> ps_commits st @ [c]
                   | None \<Rightarrow> ps_commits st);
          parsed = fromisoformat w (replace_Z (parts ! 3));
          date = (case parsed of
                    Some d \<Rightarrow> d
                  | None \<Rightarrow> DateTime (now_naive w (now_calls st)) None);
          calls = (case parsed of Some d \<Rightarrow> now_calls st | None \<Rightarrow> now_calls st + 1)
      in st\<lparr>ps_commits := saved,
            current_commit := Some \<lparr>commit_hash = parts ! 0, commit_author = parts ! 1,
              commit_email = parts ! 2, commit_date = date,
              commit_message = parts ! 4, commit_files_changed = 0,
              commit_lines_added = 0, commit_lines_removed = 0,
              file_classifications = []\<rparr>,
            now_calls := calls\<rparr>)"

definition attach_file :: "parse_state \<Rightarrow> CommitInfo \<Rightarrow> string \<times> string \<times> string \<Rightarrow> parse_state" where
  "attach_file st cc groups =
     (case groups of (g1, g2, g3) \<Rightarrow>
        (let added = (if g1 = ''-'' then 0 else py_int g1);
             removed = (if g2 = ''-'' then 0 else py_int g2);
             filepath = g3;
             classification = classify filepath added removed;
             cc' = cc\<lparr>file_classifications := file_classifications cc @ [classification],
                      commit_lines_added := commit_lines_added cc + added,
                      commit_lines_removed := commit_lines_removed cc + removed,
                      commit_files_changed := commit_files_changed cc + 1\<rparr>
         in st\<lparr>current_commit := Some cc',
               ps_languages :=
                 (case language classification of
                    None \<Rightarrow> ps_languages st
                  | Some l \<Rightarrow> if l = [] then ps_languages st
                              else dict_add l (added + removed) (ps_languages st)),
               ps_contribution_types :=
                 dict_add (contribution_type classification) (added + removed)
                   (ps_contribution_types st)\<rparr>))"

text \<open>One turn of the loop, on one line of the output.\<close>

definition parse_line :: "world \<Rightarrow> parse_state \<Rightarrow> string \<Rightarrow> parse_state" where
  "parse_line w st raw =
     (let line = strip raw
      in if line = [] then st
         else if is_commit_line line then open_commit w st line
         else (case numstat_match line of
                 None \<Rightarrow> st
               | Some groups \<Rightarrow>
                   (case current_commit st of
                      None \<Rightarrow> st
                    | Some cc \<Rightarrow> attach_file st cc groups)))"

definition initial_parse_state :: parse_state where
  "initial_parse_state =
     \<lparr>ps_commits = [], current_commit = None, ps_languages = [],
      ps_contribution_types = [], now_calls = 0\<rparr>"

text \<open>The whole loop, and the last commit added after it.\<close>

definition parse_output :: "world \<Rightarrow> string \<Rightarrow> parse_state" where
  "parse_output w output =
     (let st = foldl (parse_line w) initial_parse_state (split NL output)
      in case current_commit st of
           None \<Rightarrow> st
         | Some c \<Rightarrow> st\<lparr>ps_commits := ps_commits st @ [c]\<rparr>)"

section \<open>Analysing a repository\<close>

text \<open>The author filter: the email is used when it is set, the name otherwise.\<close>

definition author_filter :: "GitAnalyzer \<Rightarrow> string list" where
  "author_filter self =
     (if truthy (author_email self)
      then (case author_email self of Some e \<Rightarrow> [''--author'', e] | None \<Rightarrow> [])
      else if truthy (author_name self)
      then (case author_name self of Some n \<Rightarrow> [''--author'', n] | None \<Rightarrow> [])
      else [])"

definition log_format :: string where
  "log_format = ''%H|%an|%ae|%aI|%s''"

definition log_args :: "GitAnalyzer \<Rightarrow> string list" where
  "log_args self = [''log'', ''--format='' @ log_format, ''--numstat''] @ author_filter self"

text \<open>One turn of the loop that adds the commits' counts to the totals.\<close>

definition add_commit_totals :: "RepoStats \<Rightarrow> CommitInfo \<Rightarrow> RepoStats" where
  "add_commit_totals stats commit =
     stats\<lparr>total_lines_added := total_lines_added stats + commit_lines_added commit,
           total_lines_removed := total_lines_removed stats + commit_lines_removed commit,
           total_files_changed := total_files_changed stats + commit_files_changed commit\<rparr>"

definition record_repo :: "GitAnalyzer \<Rightarrow> RepoStats \<Rightarrow> (error + RepoStats option) \<times> GitAnalyzer" where
  "record_repo self stats = (Inr (Some stats), self\<lparr>repos := repos self @ [stats]\<rparr>)"

text \<open>
  \<open>analyze_repo\<close> returns its result (\<open>None\<close>, the statistics, or the exception that
  leaves it) and the analyzer after the call.
\<close>

definition analyze_repo :: "world \<Rightarrow> string \<Rightarrow> GitAnalyzer \<Rightarrow> (error + RepoStats option) \<times> GitAnalyzer" where
  "analyze_repo w path self =
     (if \<not> isdir w (path_join path ''.git'') then (Inr None, self)
      else
        (case abspath w path of
           Inl e \<Rightarrow> (Inl e, self)
         | Inr full \<Rightarrow>
        (case detect_technologies w path of
           Inl e \<Rightarrow> (Inl e, self)
         | Inr techs \<Rightarrow>
        (case run_git_command w path (log_args self) of
           Inl e \<Rightarrow> (Inl e, self)
         | Inr (success, output) \<Rightarrow>
            if \<not> success then (Inr None, self)
            else
              (let stats0 = \<lparr>repo_name = basename full, repo_path = path,
                       total_commits = 0, total_lines_added = 0, total_lines_removed = 0,
                       total_files_changed = 0, first_commit_date = None,
                       last_commit_date = None, languages = [], contribution_types = [],
                       commits = [], technologies = techs,
                       description = get_repo_description w path\<rparr>;
                   st = parse_output w output;
                   stats1 = stats0\<lparr>commits := ps_commits st,
                                   total_commits := int (length (ps_commits st)),
                                   languages := ps_languages st,
                                   contribution_types := ps_contribution_types st\<rparr>;
                   stats2 = foldl add_commit_totals stats1 (commits stats1)
               in (case map commit_date (commits stats2) of
                     [] \<Rightarrow> record_repo self stats2
                   | d # ds \<Rightarrow>
                       (case py_min d ds of
                          Inl e \<Rightarrow> (Inl e, self)
                        | Inr lo \<Rightarrow>
                            (case py_max d ds of
                               Inl e \<Rightarrow> (Inl e, self)
                             | Inr hi \<Rightarrow>
                                 record_repo self
                                   (stats2\<lparr>first_commit_date := Some lo,
                                           last_commit_date := Some hi\<rparr>)))))))))"

section \<open>Activity by period\<close>

text \<open>The calendar of the library, where the analyzer only formats a date or reads
  the day of the month (1..31) of one.\<close>

record calendar =
  strftime :: "string \<Rightarrow> datetime \<Rightarrow> string"
  day_of_month :: "datetime \<Rightarrow> int"

text \<open>A commit date without a zone takes the zone of the period's start.\<close>

definition with_zone_of :: "datetime \<Rightarrow> datetime \<Rightarrow> datetime" where
  "with_zone_of start d =
     (if tzinfo d = None then DateTime (wall d) (tzinfo start) else d)"

text \<open>\<open>start <= d <= end\<close>: the second comparison is made only when the first holds.\<close>

definition in_period :: "datetime \<Rightarrow> datetime \<Rightarrow> datetime \<Rightarrow> error + bool" where
  "in_period start d stop =
     (case dt_le start d of
        Inl e \<Rightarrow> Inl e
      | Inr False \<Rightarrow> Inr False
      | Inr True \<Rightarrow> dt_le d stop)"

definition empty_summary :: "datetime \<Rightarrow> datetime \<Rightarrow> string \<Rightarrow> ActivitySummary" where
  "empty_summary start stop label =
     \<lparr>period_start = start, period_end = stop, period_label = label,
      summary_commits = 0, summary_lines_added = 0, summary_lines_removed = 0,
      summary_files_changed = 0, repos_active = 0,
      contribution_breakdown = [], language_breakdown = []\<rparr>"








text \<open>Running a step for each index of a \<open>range\<close>, up to the first exception.\<close>

fun for_each :: "(int \<Rightarrow> error + 'a) \<Rightarrow> int list \<Rightarrow> error + 'a list" where
  "for_each f [] = Inr []"
| "for_each f (i # is) =
     (case f i of
        Inl e \<Rightarrow> Inl e
      | Inr x \<Rightarrow> (case for_each f is of Inl e \<Rightarrow> Inl e | Inr xs \<Rightarrow> Inr (x # xs)))"

definition range :: "int \<Rightarrow> int list" where
  "range n = map int [0..<nat n]"

subsection \<open>Daily activity\<close>

fun daily_commits_loop ::
    "datetime \<Rightarrow> datetime \<Rightarrow> ActivitySummary \<Rightarrow> CommitInfo list \<Rightarrow> error + ActivitySummary" where
  "daily_commits_loop start stop summary [] = Inr summary"
| "daily_commits_loop start stop summary (commit # rest) =
     (case in_period start (with_zone_of start (commit_date commit)) stop of
        Inl e \<Rightarrow> Inl e
      | Inr inside \<Rightarrow>
          daily_commits_loop start stop
            (if inside
             then summary\<lparr>summary_commits := summary_commits summary + 1,
                          summary_lines_added :=
                            summary_lines_added summary + commit_lines_added commit,
                          summary_lines_removed :=
                            summary_lines_removed summary + commit_lines_removed commit\<rparr>
             else summary) rest)"

fun daily_repos_loop ::
    "datetime \<Rightarrow> datetime \<Rightarrow> ActivitySummary \<Rightarrow> RepoStats list \<Rightarrow> error + ActivitySummary" where
  "daily_repos_loop start stop summary [] = Inr summary"
| "daily_repos_loop start stop summary (repo # rest) =
     (case daily_commits_loop start stop summary (commits repo) of
        Inl e \<Rightarrow> Inl e
      | Inr summary' \<Rightarrow> daily_repos_loop start stop summary' rest)"

definition daily_summary :: "calendar \<Rightarrow> datetime \<Rightarrow> GitAnalyzer \<Rightarrow> int \<Rightarrow> error + ActivitySummary" where
  "daily_summary cal now self i =
     (case dt_add now (- (i * DAY)) of
        Inl e \<Rightarrow> Inl e
      | Inr day \<Rightarrow>
          (let start = start_of_day day;
               stop = end_of_day day
           in daily_repos_loop start stop
                (empty_summary start stop (strftime cal ''%A, %b %d'' day)) (repos self)))"

definition get_daily_activity ::
    "calendar \<Rightarrow> datetime \<Rightarrow> int \<Rightarrow> GitAnalyzer \<Rightarrow> error + ActivitySummary list" where
  "get_daily_activity cal now days self = for_each (daily_summary cal now self) (range days)"

subsection \<open>Weekly activity\<close>

text \<open>The state of the loops of one week: the summary and the set of the names of
  the active repositories.\<close>

fun weekly_commits_loop ::
    "datetime \<Rightarrow> datetime \<Rightarrow> string \<Rightarrow> ActivitySummary \<times> string list \<Rightarrow> CommitInfo list
      \<Rightarrow> error + (ActivitySummary \<times> string list)" where
  "weekly_commits_loop week_start week_end name acc [] = Inr acc"
| "weekly_commits_loop week_start week_end name (summary, active) (commit # rest) =
     (case in_period week_start (with_zone_of week_start (commit_date commit)) week_end of
        Inl e \<Rightarrow> Inl e
      | Inr inside \<Rightarrow>
          weekly_commits_loop week_start week_end name
            (if inside
             then (summary\<lparr>summary_commits := summary_commits summary + 1,
                           summary_lines_added :=
                             summary_lines_added summary + commit_lines_added commit,
                           summary_lines_removed :=
                             summary_lines_removed summary + commit_lines_removed commit,
                           summary_files_changed :=
                             summary_files_changed summary + commit_files_changed commit\<rparr>,
                   List.insert name active)
             else (summary, active)) rest)"

fun weekly_repos_loop ::
    "datetime \<Rightarrow> datetime \<Rightarrow> ActivitySummary \<times> string list \<Rightarrow> RepoStats list
      \<Rightarrow> error + (ActivitySummary \<times> string list)" where
  "weekly_repos_loop week_start week_end acc [] = Inr acc"
| "weekly_repos_loop week_start week_end acc (repo # rest) =
     (case weekly_commits_loop week_start week_end (repo_name repo) acc (commits repo) of
        Inl e \<Rightarrow> Inl e
      | Inr acc' \<Rightarrow> weekly_repos_loop week_start week_end acc' rest)"

definition weekly_summary :: "calendar \<Rightarrow> datetime \<Rightarrow> GitAnalyzer \<Rightarrow> int \<Rightarrow> error + ActivitySummary" where
  "weekly_summary cal now self i =
     (case dt_add now (- ((weekday now + i * 7) * DAY)) of
        Inl e \<Rightarrow> Inl e
      | Inr day \<Rightarrow>
          (let week_start = start_of_day day
           in case dt_add week_start (6 * DAY + 23 * 3600000000 + 59 * 60000000 + 59 * 1000000) of
                Inl e \<Rightarrow> Inl e
              | Inr week_end \<Rightarrow>
                  (case weekly_repos_loop week_start week_end
                          (empty_summary week_start week_end
                             (''Week of '' @ strftime cal ''%b %d'' week_start), [])
                          (repos self) of
                     Inl e \<Rightarrow> Inl e
                   | Inr (summary, active) \<Rightarrow>
                       Inr (summary\<lparr>repos_active := int (length active)\<rparr>))))"

definition get_weekly_activity ::
    "calendar \<Rightarrow> datetime \<Rightarrow> int \<Rightarrow> GitAnalyzer \<Rightarrow> error + ActivitySummary list" where
  "get_weekly_activity cal now weeks self = for_each (weekly_summary cal now self) (range weeks)"

section \<open>Totals over all repositories\<close>

text \<open>
  A Python \<open>float\<close> is a rational number, so the percentages are values of type
  \<open>rat\<close>. The three float operations of the percentage are taken from the language:
  the true division of two integers (with a divisor other than 0), the product of
  two floats, and \<open>round(x, 1)\<close>.
\<close>

record float_arith =
  truediv :: "int \<Rightarrow> int \<Rightarrow> rat"
  fmul :: "rat \<Rightarrow> rat \<Rightarrow> rat"
  round1 :: "rat \<Rightarrow> rat"

text \<open>\<open>d[k] = v\<close> on a \<open>dict\<close>.\<close>

fun dict_set :: "'k \<Rightarrow> 'v \<Rightarrow> ('k \<times> 'v) list \<Rightarrow> ('k \<times> 'v) list" where
  "dict_set k v [] = [(k, v)]"
| "dict_set k v ((k', c) # d) =
     (if k' = k then (k', v) # d else (k', c) # dict_set k v d)"

text \<open>The two loops that add the counters of all repositories up, key by key.\<close>

definition merge_counts :: "('k \<times> int) list list \<Rightarrow> ('k \<times> int) list" where
  "merge_counts ds =
     foldl (\<lambda>all d. foldl (\<lambda>all (k, count). dict_add k count all) all d) [] ds"

record TotalStats =
  ts_total_repos :: int
  ts_total_commits :: int
  ts_total_lines_added :: int
  ts_total_lines_removed :: int
  ts_total_lines_changed :: int
  ts_total_files_changed :: int
  ts_languages :: "(string \<times> int) list"
  ts_contribution_types :: "(ContributionType \<times> int) list"
  contribution_percentages :: "(ContributionType \<times> rat) list"

text \<open>\<open>round((count / total_lines) * 100, 1)\<close>; the division raises
  \<open>ZeroDivisionError\<close> on the divisor 0.\<close>

definition percentage :: "float_arith \<Rightarrow> int \<Rightarrow> int \<Rightarrow> error + rat" where
  "percentage fa count total_lines =
     (if total_lines = 0 then Inl ZeroDivisionError
      else Inr (round1 fa (fmul fa (truediv fa count total_lines) 100)))"

fun percentages_loop ::
    "float_arith \<Rightarrow> int \<Rightarrow> (ContributionType \<times> rat) list \<Rightarrow> (ContributionType \<times> int) list
      \<Rightarrow> error + (ContributionType \<times> rat) list" where
  "percentages_loop fa total_lines acc [] = Inr acc"
| "percentages_loop fa total_lines acc ((ctype, count) # items) =
     (case percentage fa count total_lines of
        Inl e \<Rightarrow> Inl e
      | Inr p \<Rightarrow> percentages_loop fa total_lines (dict_set ctype p acc) items)"

definition get_total_stats :: "float_arith \<Rightarrow> GitAnalyzer \<Rightarrow> error + TotalStats" where
  "get_total_stats fa self =
     (let all_languages = merge_counts (map languages (repos self));
          all_contribution_types = merge_counts (map contribution_types (repos self));
          total_lines = dict_values_sum all_contribution_types
      in case (if total_lines > 0
               then percentages_loop fa total_lines [] all_contribution_types
               else Inr []) of
           Inl e \<Rightarrow> Inl e
         | Inr percentages \<Rightarrow>
             Inr \<lparr>ts_total_repos = int (length (repos self)),
                  ts_total_commits = sum_list (map total_commits (repos self)),
                  ts_total_lines_added = sum_list (map total_lines_added (repos self)),
                  ts_total_lines_removed = sum_list (map total_lines_removed (repos self)),
                  ts_total_lines_changed =
                    sum_list (map total_lines_added (repos self))
                      + sum_list (map total_lines_removed (repos self)),
                  ts_total_files_changed = sum_list (map total_files_changed (repos self)),
                  ts_languages = all_languages,
                  ts_contribution_types = all_contribution_types,
                  contribution_percentages = percentages\<rparr>)"

text \<open>Exact arithmetic, as one instance of the float operations: the quotient and
  the product without error, and rounding to the nearest tenth, a tie going to the
  even tenth.\<close>

definition round_half_even :: "rat \<Rightarrow> int" where
  "round_half_even x =
     (let f = \<lfloor>x\<rfloor>; r = x - of_int f
      in if r < 1 / 2 then f
         else if 1 / 2 < r then f + 1
         else if even f then f else f + 1)"

definition exact_arith :: float_arith where
  "exact_arith =
     \<lparr>truediv = (\<lambda>a b. of_int a / of_int b),
      fmul = (\<lambda>x y. x * y),
      round1 = (\<lambda>x. of_int (round_half_even (x * 10)) / 10)\<rparr>"

section \<open>Quantities used in the statements\<close>

text \<open>The lines (added and removed) of the commits a parse has closed, and of the
  commit that is still open.\<close>

definition closed_lines :: "parse_state \<Rightarrow> int" where
  "closed_lines st = (\<Sum>c\<leftarrow>ps_commits st. commit_lines_added c + commit_lines_removed c)"

definition open_lines :: "parse_state \<Rightarrow> int" where
  "open_lines st =
     (case current_commit st of
        None \<Rightarrow> 0
      | Some c \<Rightarrow> commit_lines_added c + commit_lines_removed c)"

text \<open>The invariant of the loop over the lines: the contribution counter holds
  the lines of all commits seen, and the language counter holds no more.\<close>

definition parse_inv :: "parse_state \<Rightarrow> bool" where
  "parse_inv st \<longleftrightarrow>
     dict_values_sum (ps_contribution_types st) = closed_lines st + open_lines st
     \<and> dict_values_sum (ps_languages st) \<le> dict_values_sum (ps_contribution_types st)"




section \<open>A repository with two commits\<close>

text \<open>
  The scenario of the specification: one commit adds \<open>src/app.py\<close> (+10) and
  \<open>tests/test_app.py\<close> (+5), another adds \<open>README.md\<close> (+3). The log lists the
  newer commit first.
\<close>

definition jan_1 :: datetime where
  "jan_1 = DateTime (738885 * DAY + 10 * 3600000000) (Some 0)"

definition jan_2 :: datetime where
  "jan_2 = DateTime (738886 * DAY + 10 * 3600000000) (Some 0)"

definition example_log :: string where
  "example_log =
     ''b2|Ann|a@x|2024-01-02T10:00:00+00:00|docs'' @ [NL] @ [NL]
     @ ''3'' @ [TAB] @ ''0'' @ [TAB] @ ''README.md'' @ [NL]
     @ ''a1|Ann|a@x|2024-01-01T10:00:00+00:00|init'' @ [NL] @ [NL]
     @ ''10'' @ [TAB] @ ''0'' @ [TAB] @ ''src/app.py'' @ [NL]
     @ ''5'' @ [TAB] @ ''0'' @ [TAB] @ ''tests/test_app.py'' @ [NL]"

definition example_world :: world where
  "example_world =
     \<lparr>isdir = (\<lambda>path. path \<in> set [''/repo'', ''/repo/.git'', ''/repo/src'', ''/repo/tests'']),
      path_exists = (\<lambda>path. path \<in> set [''/repo/README.md'', ''/repo/src'', ''/repo/tests'']),
      listdir = (\<lambda>path. Inr [''.git'', ''README.md'', ''src'', ''tests'']),
      abspath = (\<lambda>path. Inr path),
      get_repo_description = (\<lambda>path. []),
      subprocess_run = (\<lambda>path args. Completed 0 example_log),
      fromisoformat =
        (\<lambda>s. if s = ''2024-01-01T10:00:00+00:00'' then Some jan_1
             else if s = ''2024-01-02T10:00:00+00:00'' then Some jan_2
             else None),
      now_naive = (\<lambda>k. 738886 * DAY + 12 * 3600000000)\<rparr>"

definition timeout_world :: world where
  "timeout_world =
     example_world\<lparr>subprocess_run := (\<lambda>path args. TimeoutExpired ''timed out'')\<rparr>"

text \<open>A world where the program may not be executed.\<close>

definition denied_world :: world where
  "denied_world = example_world\<lparr>subprocess_run := (\<lambda>path args. Raised PermissionError)\<rparr>"

definition example_analyzer :: GitAnalyzer where
  "example_analyzer = \<lparr>author_email = None, author_name = None, repos = []\<rparr>"

definition example_commit_b2 :: CommitInfo where
  "example_commit_b2 =
     \<lparr>commit_hash = ''b2'', commit_author = ''Ann'', commit_email = ''a@x'',
      commit_date = jan_2, commit_message = ''docs'', commit_files_changed = 1,
      commit_lines_added = 3, commit_lines_removed = 0,
      file_classifications =
        [\<lparr>file_path = ''README.md'', contribution_type = DOCUMENTATION,
          language = Some ''Documentation'', lines_added = 3, lines_removed = 0\<rparr>]\<rparr>"

definition example_commit_a1 :: CommitInfo where
  "example_commit_a1 =
     \<lparr>commit_hash = ''a1'', commit_author = ''Ann'', commit_email = ''a@x'',
      commit_date = jan_1, commit_message = ''init'', commit_files_changed = 2,
      commit_lines_added = 15, commit_lines_removed = 0,
      file_classifications =
        [\<lparr>file_path = ''src/app.py'', contribution_type = PRODUCTION_CODE,
          language = Some ''Python'', lines_added = 10, lines_removed = 0\<rparr>,
         \<lparr>file_path = ''tests/test_app.py'', contribution_type = TESTS,
          language = Some ''Python'', lines_added = 5, lines_removed = 0\<rparr>]\<rparr>"

definition example_stats :: RepoStats where
  "example_stats =
     \<lparr>repo_name = ''repo'', repo_path = ''/repo'', total_commits = 2,
      total_lines_added = 18, total_lines_removed = 0, total_files_changed = 3,
      first_commit_date = Some jan_1, last_commit_date = Some jan_2,
      languages = [(''Documentation'', 3), (''Python'', 15)],
      contribution_types = [(DOCUMENTATION, 3), (PRODUCTION_CODE, 10), (TESTS, 5)],
      commits = [example_commit_b2, example_commit_a1],
      technologies = [], description = []\<rparr>"

definition analyzed :: GitAnalyzer where
  "analyzed = example_analyzer\<lparr>repos := [example_stats]\<rparr>"

text \<open>A calendar for the examples, which do not depend on the labels: a date is
  formatted as the format itself.\<close>

definition example_calendar :: calendar where
  "example_calendar = \<lparr>strftime = (\<lambda>format d. format), day_of_month = (\<lambda>d. 2)\<rparr>"

text \<open>The second of January 2024 at noon, UTC.\<close>

definition example_now :: datetime where
  "example_now = DateTime (738886 * DAY + 12 * 3600000000) (Some 0)"



text \<open>A log whose second line has the shape of a numeric-stat line, for a file
  whose name contains four bars.\<close>

definition bars_line :: string where
  "bars_line = ''3'' @ [TAB] @ ''1'' @ [TAB] @ ''a|b|c|d|e.txt''"

definition bars_log :: string where
  "bars_log = ''a1|Ann|a@x|2024-01-01T10:00:00+00:00|init'' @ [NL] @ bars_line"

section \<open>Properties of the classifier\<close>

lemma classify_file_path: "file_path (classify path added removed) = path"
  by (simp add: classify_def Let_def)

lemma classify_lines_added: "lines_added (classify path added removed) = added"
  by (simp add: classify_def Let_def)

lemma classify_lines_removed: "lines_removed (classify path added removed) = removed"
  by (simp add: classify_def Let_def)

lemma ContributionType_cases:
  "c \<in> {PRODUCTION_CODE, TESTS, DOCUMENTATION, SPECS_CONFIG, INFRASTRUCTURE, STYLING, OTHER}"
  by (cases c) simp_all

text \<open>
  C3. A path whose lower-cased form contains a test pattern and a spec/config pattern
  is classified as TESTS and not as SPECS_CONFIG: the test rule is tried first.
\<close>

theorem classify_tests_before_config:
  assumes "any_pattern_in TEST_PATTERNS (lower path)"
    and "any_pattern_in SPEC_CONFIG_PATTERNS (lower path)"
  shows "contribution_type (classify path added removed) = TESTS
         \<and> contribution_type (classify path added removed) \<noteq> SPECS_CONFIG"
  using assms(1) by (simp add: classify_def Let_def)

lemma jest_config_matches_test:
  "any_pattern_in TEST_PATTERNS (lower ''tests/jest.config.js'')"
  by (simp add: any_pattern_in_def TEST_PATTERNS_def lower_def lower_char_def)

lemma jest_config_matches_config:
  "any_pattern_in SPEC_CONFIG_PATTERNS (lower ''tests/jest.config.js'')"
  by (simp add: any_pattern_in_def SPEC_CONFIG_PATTERNS_def lower_def lower_char_def)

theorem classify_tests_before_config_witness:
  "any_pattern_in TEST_PATTERNS (lower ''tests/jest.config.js'')
   \<and> any_pattern_in SPEC_CONFIG_PATTERNS (lower ''tests/jest.config.js'')
   \<and> contribution_type (classify ''tests/jest.config.js'' 4 1) = TESTS
   \<and> contribution_type (classify ''tests/jest.config.js'' 4 1) \<noteq> SPECS_CONFIG"
  using classify_tests_before_config [OF jest_config_matches_test jest_config_matches_config,
      of 4 1]
    jest_config_matches_test jest_config_matches_config
  by simp

text \<open>
  C4, as stated, fails: the extension \<open>.adoc\<close> has no entry in the language table
  and \<open>notes.adoc\<close> contains no pattern of any of the five pattern lists, yet the
  path is classified as DOCUMENTATION with the language "Documentation", because the
  documentation rule also looks the extension up in the list of documentation
  extensions.
\<close>

theorem classify_unmapped_counterexample:
  "map_of LANGUAGE_MAP (lower (snd (splitext ''notes.adoc''))) = None
   \<and> \<not> any_pattern_in TEST_PATTERNS (lower ''notes.adoc'')
   \<and> \<not> any_pattern_in DOC_PATTERNS (lower ''notes.adoc'')
   \<and> \<not> any_pattern_in INFRA_PATTERNS (lower ''notes.adoc'')
   \<and> \<not> any_pattern_in SPEC_CONFIG_PATTERNS (lower ''notes.adoc'')
   \<and> \<not> any_pattern_in STYLE_PATTERNS (lower ''notes.adoc'')
   \<and> contribution_type (classify ''notes.adoc'' 0 0) = DOCUMENTATION
   \<and> language (classify ''notes.adoc'' 0 0) = Some ''Documentation''"
  by code_simp

text \<open>
  C4, amended. \<open>classify\<close> is a total function: every path and every pair of line
  counts has exactly one result, equal inputs have equal results, and the category
  is one of the seven values of the enumeration. A path whose extension is neither in
  the language table nor a documentation extension, and whose lower-cased form
  contains no pattern of the five lists, has the category OTHER and no language.
\<close>

theorem classify_total:
  "(\<exists>!c. classify path added removed = c)
   \<and> (path = path' \<and> added = added' \<and> removed = removed'
        \<longrightarrow> classify path added removed = classify path' added' removed')
   \<and> contribution_type (classify path added removed)
        \<in> {PRODUCTION_CODE, TESTS, DOCUMENTATION, SPECS_CONFIG, INFRASTRUCTURE, STYLING, OTHER}
   \<and> (map_of LANGUAGE_MAP (lower (snd (splitext path))) = None
        \<and> lower (snd (splitext path)) \<notin> set DOC_EXTENSIONS
        \<and> \<not> any_pattern_in TEST_PATTERNS (lower path)
        \<and> \<not> any_pattern_in DOC_PATTERNS (lower path)
        \<and> \<not> any_pattern_in INFRA_PATTERNS (lower path)
        \<and> \<not> any_pattern_in SPEC_CONFIG_PATTERNS (lower path)
        \<and> \<not> any_pattern_in STYLE_PATTERNS (lower path)
        \<longrightarrow> contribution_type (classify path added removed) = OTHER
            \<and> language (classify path added removed) = None)"
proof -
  have one: "\<exists>!c. classify path added removed = c"
    by simp
  have same: "path = path' \<and> added = added' \<and> removed = removed'
      \<longrightarrow> classify path added removed = classify path' added' removed'"
    by simp
  have enum: "contribution_type (classify path added removed)
      \<in> {PRODUCTION_CODE, TESTS, DOCUMENTATION, SPECS_CONFIG, INFRASTRUCTURE, STYLING, OTHER}"
    by (rule ContributionType_cases)
  have other: "map_of LANGUAGE_MAP (lower (snd (splitext path))) = None
        \<and> lower (snd (splitext path)) \<notin> set DOC_EXTENSIONS
        \<and> \<not> any_pattern_in TEST_PATTERNS (lower path)
        \<and> \<not> any_pattern_in DOC_PATTERNS (lower path)
        \<and> \<not> any_pattern_in INFRA_PATTERNS (lower path)
        \<and> \<not> any_pattern_in SPEC_CONFIG_PATTERNS (lower path)
        \<and> \<not> any_pattern_in STYLE_PATTERNS (lower path)
        \<longrightarrow> contribution_type (classify path added removed) = OTHER
            \<and> language (classify path added removed) = None"
    by (simp add: classify_def Let_def truthy_def)
  from one same enum other show ?thesis
    by blast
qed

lemma data_bin_matches_nothing:
  "map_of LANGUAGE_MAP (lower (snd (splitext ''data.bin''))) = None
   \<and> lower (snd (splitext ''data.bin'')) \<notin> set DOC_EXTENSIONS
   \<and> \<not> any_pattern_in TEST_PATTERNS (lower ''data.bin'')
   \<and> \<not> any_pattern_in DOC_PATTERNS (lower ''data.bin'')
   \<and> \<not> any_pattern_in INFRA_PATTERNS (lower ''data.bin'')
   \<and> \<not> any_pattern_in SPEC_CONFIG_PATTERNS (lower ''data.bin'')
   \<and> \<not> any_pattern_in STYLE_PATTERNS (lower ''data.bin'')"
  by code_simp

theorem classify_total_witness:
  "map_of LANGUAGE_MAP (lower (snd (splitext ''data.bin''))) = None
   \<and> lower (snd (splitext ''data.bin'')) \<notin> set DOC_EXTENSIONS
   \<and> \<not> any_pattern_in TEST_PATTERNS (lower ''data.bin'')
   \<and> \<not> any_pattern_in DOC_PATTERNS (lower ''data.bin'')
   \<and> \<not> any_pattern_in INFRA_PATTERNS (lower ''data.bin'')
   \<and> \<not> any_pattern_in SPEC_CONFIG_PATTERNS (lower ''data.bin'')
   \<and> \<not> any_pattern_in STYLE_PATTERNS (lower ''data.bin'')
   \<and> contribution_type (classify ''data.bin'' 7 2) = OTHER
   \<and> language (classify ''data.bin'' 7 2) = None"
  using classify_total [of "''data.bin''" 7 2 "''data.bin''" 7 2] data_bin_matches_nothing
  by blast

text \<open>
  C10. Whatever rule fires, the result of \<open>classify\<close> carries the given path and the
  given line counts unchanged.
\<close>

theorem classify_preserves_inputs:
  "file_path (classify path added removed) = path
   \<and> lines_added (classify path added removed) = added
   \<and> lines_removed (classify path added removed) = removed"
  by (simp add: classify_file_path classify_lines_added classify_lines_removed)

theorem classify_preserves_inputs_witness:
  "file_path (classify ''src/app.py'' 10 (- 3)) = ''src/app.py''
   \<and> lines_added (classify ''src/app.py'' 10 (- 3)) = 10
   \<and> lines_removed (classify ''src/app.py'' 10 (- 3)) = - 3"
  by (rule classify_preserves_inputs)

section \<open>Properties of the parser\<close>

lemma dict_values_sum_dict_add:
  "dict_values_sum (dict_add k v d) = dict_values_sum d + v"
  by (induction d) (auto simp: dict_values_sum_def)

lemma is_digit_value: "is_digit c \<Longrightarrow> 0 \<le> int (of_char c) - 48"
  by (simp add: is_digit_def Let_def)

lemma foldl_digits_nonneg:
  "0 \<le> acc \<Longrightarrow> list_all is_digit s
     \<Longrightarrow> 0 \<le> foldl (\<lambda>acc c. 10 * acc + (int (of_char c) - 48)) acc s"
proof (induction s arbitrary: acc)
  case Nil
  then show ?case by simp
next
  case (Cons c s)
  from Cons.prems have "0 \<le> 10 * acc + (int (of_char c) - 48)"
    using is_digit_value [of c] by simp
  with Cons show ?case by simp
qed

lemma count_nonneg:
  "count_group g \<Longrightarrow> 0 \<le> (if g = ''-'' then 0 else py_int g)"
  using foldl_digits_nonneg [of 0 g] by (auto simp: count_group_def py_int_def)

lemma numstat_match_groups:
  "numstat_match line = Some (g1, g2, g3) \<Longrightarrow> count_group g1 \<and> count_group g2"
  by (auto simp: numstat_match_def Let_def split: option.splits if_splits prod.splits)

lemma parse_inv_open_commit: "parse_inv st \<Longrightarrow> parse_inv (open_commit w st line)"
  by (auto simp: parse_inv_def open_commit_def Let_def closed_lines_def open_lines_def
      split: option.splits)

lemma parse_inv_attach_file:
  assumes "parse_inv st" and "current_commit st = Some cc"
    and "count_group g1" and "count_group g2"
  shows "parse_inv (attach_file st cc (g1, g2, g3))"
proof -
  have a: "0 \<le> (if g1 = ''-'' then 0 else py_int g1)"
    using assms(3) by (rule count_nonneg)
  have r: "0 \<le> (if g2 = ''-'' then 0 else py_int g2)"
    using assms(4) by (rule count_nonneg)
  from assms(1,2) a r show ?thesis
    by (auto simp: parse_inv_def attach_file_def Let_def closed_lines_def open_lines_def
        dict_values_sum_dict_add split: option.splits)
qed

lemma parse_inv_parse_line: "parse_inv st \<Longrightarrow> parse_inv (parse_line w st raw)"
  by (auto simp: parse_line_def Let_def parse_inv_open_commit
      split: option.splits dest: numstat_match_groups intro: parse_inv_attach_file)

lemma parse_inv_foldl: "parse_inv st \<Longrightarrow> parse_inv (foldl (parse_line w) st ls)"
  by (induction ls arbitrary: st) (simp_all add: parse_inv_parse_line)

lemma parse_inv_initial: "parse_inv initial_parse_state"
  by (simp add: parse_inv_def initial_parse_state_def closed_lines_def open_lines_def
      dict_values_sum_def)

lemma parse_output_sums:
  "dict_values_sum (ps_contribution_types (parse_output w output))
     = sum_list (map commit_lines_added (ps_commits (parse_output w output)))
       + sum_list (map commit_lines_removed (ps_commits (parse_output w output)))
   \<and> dict_values_sum (ps_languages (parse_output w output))
     \<le> dict_values_sum (ps_contribution_types (parse_output w output))"
  using parse_inv_foldl [OF parse_inv_initial, of w "split NL output"]
  by (auto simp: parse_output_def Let_def parse_inv_def closed_lines_def open_lines_def
      sum_list_addf split: option.splits)

lemma foldl_add_commit_totals:
  "total_lines_added (foldl add_commit_totals s cs)
     = total_lines_added s + sum_list (map commit_lines_added cs)
   \<and> total_lines_removed (foldl add_commit_totals s cs)
     = total_lines_removed s + sum_list (map commit_lines_removed cs)
   \<and> total_files_changed (foldl add_commit_totals s cs)
     = total_files_changed s + sum_list (map commit_files_changed cs)
   \<and> commits (foldl add_commit_totals s cs) = commits s
   \<and> languages (foldl add_commit_totals s cs) = languages s
   \<and> contribution_types (foldl add_commit_totals s cs) = contribution_types s"
  by (induction cs arbitrary: s) (simp_all add: add_commit_totals_def)

lemma analyze_repo_Some:
  assumes "analyze_repo w path self = (Inr (Some stats), self')"
  shows "\<exists>output. run_git_command w path (log_args self) = Inr (True, output)
     \<and> commits stats = ps_commits (parse_output w output)
     \<and> languages stats = ps_languages (parse_output w output)
     \<and> contribution_types stats = ps_contribution_types (parse_output w output)
     \<and> total_lines_added stats = sum_list (map commit_lines_added (commits stats))
     \<and> total_lines_removed stats = sum_list (map commit_lines_removed (commits stats))
     \<and> total_files_changed stats = sum_list (map commit_files_changed (commits stats))
     \<and> self' = self\<lparr>repos := repos self @ [stats]\<rparr>"
  using assms
  by (auto simp: analyze_repo_def Let_def record_repo_def foldl_add_commit_totals
      add_commit_totals_def
      split: if_splits prod.splits list.splits sum.splits)

subsection \<open>The repository with two commits\<close>

lemma example_parse:
  "parse_output example_world example_log =
     \<lparr>ps_commits = [example_commit_b2, example_commit_a1],
      current_commit = Some example_commit_a1,
      ps_languages = [(''Documentation'', 3), (''Python'', 15)],
      ps_contribution_types = [(DOCUMENTATION, 3), (PRODUCTION_CODE, 10), (TESTS, 5)],
      now_calls = 0\<rparr>"
  by code_simp

lemma example_probes:
  "isdir example_world (path_join ''/repo'' ''.git'')"
  "abspath example_world ''/repo'' = Inr ''/repo''"
  "basename ''/repo'' = ''repo''"
  "get_repo_description example_world ''/repo'' = []"
  "run_git_command example_world ''/repo'' (log_args example_analyzer) = Inr (True, example_log)"
  by (simp_all add: example_world_def run_git_command_def path_join_def basename_def rfind_def)

lemma example_technologies: "detect_technologies example_world ''/repo'' = Inr []"
  by code_simp

lemma example_dates:
  "commit_date example_commit_a1 = jan_1"
  "commit_date example_commit_b2 = jan_2"
  "dt_lt jan_1 jan_2 = Inr True"
  "dt_lt jan_2 jan_1 = Inr False"
  by (simp_all add: example_commit_b2_def example_commit_a1_def dt_lt_def jan_1_def jan_2_def
      DAY_def)

lemma example_analysis:
  "analyze_repo example_world ''/repo'' example_analyzer = (Inr (Some example_stats), analyzed)"
  unfolding analyze_repo_def
  apply (simp add: example_probes example_technologies example_parse example_dates Let_def
      record_repo_def add_commit_totals_def)
  apply (simp add: example_stats_def analyzed_def example_analyzer_def)
  apply (simp add: example_commit_b2_def example_commit_a1_def)
  done

subsection \<open>Lines of the log\<close>

text \<open>
  C1 does not hold of the code. The line \<open>3<TAB>1<TAB>a|b|c|d|e.txt\<close> has the
  shape of a numeric-stat line, and it follows a commit header, so a commit is
  open. The parser nevertheless takes it for a commit header, because it contains
  four bars: the commit \<open>a1\<close> is closed with no file, a commit with the hash
  \<open>3<TAB>1<TAB>a\<close> and the message \<open>e.txt\<close> is opened, and no file change is
  counted.
\<close>

theorem numstat_line_taken_as_header:
  "numstat_match bars_line = Some (''3'', ''1'', ''a|b|c|d|e.txt'')
   \<and> map (\<lambda>c. (commit_hash c, commit_message c, commit_files_changed c))
        (ps_commits (parse_output example_world bars_log))
      = [(''a1'', ''init'', 0), (''3'' @ [TAB] @ ''1'' @ [TAB] @ ''a'', ''e.txt'', 0)]
   \<and> ps_contribution_types (parse_output example_world bars_log) = []"
  by code_simp

subsection \<open>Totals of a repository\<close>

text \<open>
  C6. When \<open>analyze_repo\<close> returns the statistics of a repository, the total of
  the lines added is the sum of the lines added of its commits, and so are the total
  of the lines removed and the total of the files changed.
\<close>

theorem repository_totals_are_commit_sums:
  assumes "analyze_repo w path self = (Inr (Some stats), self')"
  shows "total_lines_added stats = sum_list (map commit_lines_added (commits stats))
     \<and> total_lines_removed stats = sum_list (map commit_lines_removed (commits stats))
     \<and> total_files_changed stats = sum_list (map commit_files_changed (commits stats))"
  using analyze_repo_Some [OF assms] by blast

theorem repository_totals_are_commit_sums_witness:
  "analyze_repo example_world ''/repo'' example_analyzer = (Inr (Some example_stats), analyzed)
   \<and> total_lines_added example_stats = 18
   \<and> sum_list (map commit_lines_added (commits example_stats)) = 18
   \<and> total_lines_removed example_stats
       = sum_list (map commit_lines_removed (commits example_stats))
   \<and> total_files_changed example_stats
       = sum_list (map commit_files_changed (commits example_stats))"
  using repository_totals_are_commit_sums [OF example_analysis] example_analysis
  by (simp add: example_stats_def)

text \<open>
  C9. For a repository that \<open>analyze_repo\<close> has analysed, the values of the
  contribution counter add up to the lines added plus the lines removed, and the
  values of the language counter add up to no more.
\<close>

theorem contribution_types_sum_to_total_lines:
  assumes "analyze_repo w path self = (Inr (Some stats), self')"
  shows "dict_values_sum (contribution_types stats)
           = total_lines_added stats + total_lines_removed stats
     \<and> dict_values_sum (languages stats)
           \<le> total_lines_added stats + total_lines_removed stats"
proof -
  from analyze_repo_Some [OF assms] obtain out
    where c: "commits stats = ps_commits (parse_output w out)"
      and l: "languages stats = ps_languages (parse_output w out)"
      and t: "contribution_types stats = ps_contribution_types (parse_output w out)"
      and a: "total_lines_added stats = sum_list (map commit_lines_added (commits stats))"
      and r: "total_lines_removed stats = sum_list (map commit_lines_removed (commits stats))"
    by blast
  from parse_output_sums [of w out] c l t a r show ?thesis
    by simp
qed

theorem contribution_types_sum_to_total_lines_witness:
  "analyze_repo example_world ''/repo'' example_analyzer = (Inr (Some example_stats), analyzed)
   \<and> dict_values_sum (contribution_types example_stats) = 18
   \<and> total_lines_added example_stats + total_lines_removed example_stats = 18
   \<and> dict_values_sum (languages example_stats)
       \<le> total_lines_added example_stats + total_lines_removed example_stats"
  using contribution_types_sum_to_total_lines [OF example_analysis] example_analysis
  by (simp add: example_stats_def)

subsection \<open>Failed analyses\<close>

text \<open>
  C8, as stated, fails: when the program may not be executed, \<open>subprocess.run\<close>
  raises \<open>PermissionError\<close>, which \<open>_run_git_command\<close> does not catch. The log command
  has failed, and \<open>analyze_repo\<close> does not return \<open>None\<close>: the exception leaves it.
\<close>

theorem analyze_repo_raises_counterexample:
  "isdir denied_world (path_join ''/repo'' ''.git'')
   \<and> subprocess_run denied_world ''/repo'' (''git'' # log_args analyzed) = Raised PermissionError
   \<and> analyze_repo denied_world ''/repo'' analyzed = (Inl PermissionError, analyzed)
   \<and> fst (analyze_repo denied_world ''/repo'' analyzed) \<noteq> Inr None"
  by code_simp

text \<open>
  C8, amended. When the path has no \<open>.git\<close> directory, \<open>analyze_repo\<close> returns
  \<open>None\<close> and leaves the analyzer, and so its list of repositories, as it was. So
  it does when the path is resolved and the technologies are detected without an
  exception and the log command ends with a return code other than 0, times out or
  is not found. When \<open>subprocess.run\<close> raises another exception, the exception
  leaves \<open>analyze_repo\<close>, and the analyzer is as it was.
\<close>

theorem analyze_repo_fails_gracefully:
  "(\<not> isdir w (path_join path ''.git'')
      \<longrightarrow> analyze_repo w path self = (Inr None, self)
          \<and> repos (snd (analyze_repo w path self)) = repos self)
   \<and> (abspath w path = Inr full \<and> detect_technologies w path = Inr techs
        \<and> ((\<exists>returncode out.
               subprocess_run w path (''git'' # log_args self) = Completed returncode out
               \<and> returncode \<noteq> 0)
           \<or> (\<exists>msg. subprocess_run w path (''git'' # log_args self) = TimeoutExpired msg)
           \<or> (\<exists>msg. subprocess_run w path (''git'' # log_args self) = FileNotFoundError msg))
      \<longrightarrow> analyze_repo w path self = (Inr None, self)
          \<and> repos (snd (analyze_repo w path self)) = repos self)
   \<and> (isdir w (path_join path ''.git'')
        \<and> abspath w path = Inr full \<and> detect_technologies w path = Inr techs
        \<and> subprocess_run w path (''git'' # log_args self) = Raised e
      \<longrightarrow> analyze_repo w path self = (Inl e, self)
          \<and> repos (snd (analyze_repo w path self)) = repos self)"
  by (auto simp: analyze_repo_def run_git_command_def Let_def)

lemma other_is_no_repository: "\<not> isdir example_world (path_join ''/other'' ''.git'')"
  by (simp add: example_world_def path_join_def)

lemma timeout_world_probes:
  "abspath timeout_world ''/repo'' = Inr ''/repo''"
  "subprocess_run timeout_world ''/repo'' (''git'' # log_args analyzed)
     = TimeoutExpired ''timed out''"
  by (simp_all add: timeout_world_def example_world_def)

lemma timeout_world_technologies: "detect_technologies timeout_world ''/repo'' = Inr []"
  by code_simp

lemma denied_world_probes:
  "isdir denied_world (path_join ''/repo'' ''.git'')"
  "abspath denied_world ''/repo'' = Inr ''/repo''"
  "subprocess_run denied_world ''/repo'' (''git'' # log_args analyzed) = Raised PermissionError"
  by (simp_all add: denied_world_def example_world_def path_join_def)

lemma denied_world_technologies: "detect_technologies denied_world ''/repo'' = Inr []"
  by code_simp

theorem analyze_repo_fails_gracefully_witness:
  "\<not> isdir example_world (path_join ''/other'' ''.git'')
   \<and> analyze_repo example_world ''/other'' analyzed = (Inr None, analyzed)
   \<and> repos (snd (analyze_repo example_world ''/other'' analyzed)) = [example_stats]
   \<and> abspath timeout_world ''/repo'' = Inr ''/repo''
   \<and> detect_technologies timeout_world ''/repo'' = Inr []
   \<and> subprocess_run timeout_world ''/repo'' (''git'' # log_args analyzed)
       = TimeoutExpired ''timed out''
   \<and> analyze_repo timeout_world ''/repo'' analyzed = (Inr None, analyzed)
   \<and> repos (snd (analyze_repo timeout_world ''/repo'' analyzed)) = [example_stats]
   \<and> isdir denied_world (path_join ''/repo'' ''.git'')
   \<and> abspath denied_world ''/repo'' = Inr ''/repo''
   \<and> detect_technologies denied_world ''/repo'' = Inr []
   \<and> subprocess_run denied_world ''/repo'' (''git'' # log_args analyzed) = Raised PermissionError
   \<and> analyze_repo denied_world ''/repo'' analyzed = (Inl PermissionError, analyzed)
   \<and> repos (snd (analyze_repo denied_world ''/repo'' analyzed)) = [example_stats]"
proof -
  have 1: "analyze_repo example_world ''/other'' analyzed = (Inr None, analyzed)
      \<and> repos (snd (analyze_repo example_world ''/other'' analyzed)) = repos analyzed"
    using analyze_repo_fails_gracefully [of example_world "''/other''" analyzed]
      other_is_no_repository
    by blast
  have 2: "analyze_repo timeout_world ''/repo'' analyzed = (Inr None, analyzed)
      \<and> repos (snd (analyze_repo timeout_world ''/repo'' analyzed)) = repos analyzed"
    using analyze_repo_fails_gracefully [of timeout_world "''/repo''" analyzed "''/repo''" "[]"]
      timeout_world_probes timeout_world_technologies
    by blast
  have 3: "analyze_repo denied_world ''/repo'' analyzed = (Inl PermissionError, analyzed)
      \<and> repos (snd (analyze_repo denied_world ''/repo'' analyzed)) = repos analyzed"
    using analyze_repo_fails_gracefully
        [of denied_world "''/repo''" analyzed "''/repo''" "[]" PermissionError]
      denied_world_probes denied_world_technologies
    by blast
  have 4: "repos analyzed = [example_stats]"
    by (simp add: analyzed_def)
  from 1 2 3 4 other_is_no_repository timeout_world_probes timeout_world_technologies
    denied_world_probes denied_world_technologies
  show ?thesis
    by simp
qed

section \<open>Properties of the periods\<close>

















text \<open>
  C2 does not hold of the code. With the repository of two commits (three files)
  analysed, the daily summaries of the second and of the first of January each
  count one commit, but no file and no active repository: the loop of
  \<open>get_daily_activity\<close> adds neither. The weekly summary of the same week counts
  the two commits, their three files and one active repository.
\<close>

theorem daily_activity_omits_files_and_repositories:
  "map_sum id (map (\<lambda>s. (summary_commits s, summary_files_changed s, repos_active s)))
       (get_daily_activity example_calendar example_now 2 analyzed)
     = Inr [(1, 0, 0), (1, 0, 0)]
   \<and> map_sum id (map (\<lambda>s. (summary_commits s, summary_files_changed s, repos_active s)))
       (get_weekly_activity example_calendar example_now 1 analyzed)
     = Inr [(2, 3, 1)]"
  by code_simp

section \<open>Properties of the totals\<close>

lemma dict_add_keys: "set (map fst (dict_add k v d)) = insert k (set (map fst d))"
  by (induction d) force+

lemma dict_add_distinct: "distinct (map fst d) \<Longrightarrow> distinct (map fst (dict_add k v d))"
proof (induction d)
  case Nil
  show ?case by simp
next
  case (Cons a d)
  obtain k' c where a: "a = (k', c)" by (cases a)
  from Cons have d: "distinct (map fst (dict_add k v d))" and n: "k' \<notin> set (map fst d)"
    by (simp_all add: a)
  show ?case
  proof (cases "k' = k")
    case True
    with Cons.prems show ?thesis by (simp add: a)
  next
    case False
    have "k' \<notin> set (map fst (dict_add k v d))"
      using n False by (simp only: dict_add_keys) simp
    with d False show ?thesis by (simp add: a)
  qed
qed

lemma foldl_dict_add_distinct:
  "distinct (map fst all) \<Longrightarrow>
     distinct (map fst (foldl (\<lambda>all (k, count). dict_add k count all) all d))"
  by (induction d arbitrary: all) (auto simp: dict_add_distinct)

lemma merge_counts_distinct_from:
  "distinct (map fst all) \<Longrightarrow>
     distinct (map fst
       (foldl (\<lambda>all d. foldl (\<lambda>all (k, count). dict_add k count all) all d) all ds))"
  by (induction ds arbitrary: all) (simp_all add: foldl_dict_add_distinct)

lemma merge_counts_distinct: "distinct (map fst (merge_counts ds))"
  unfolding merge_counts_def by (rule merge_counts_distinct_from) simp

lemma dict_set_new: "k \<notin> set (map fst d) \<Longrightarrow> dict_set k v d = d @ [(k, v)]"
  by (induction d) auto

lemma percentages_loop_map:
  assumes "total_lines \<noteq> 0"
  shows "distinct (map fst acc @ map fst items) \<Longrightarrow>
     percentages_loop fa total_lines acc items
       = Inr (acc @ map (\<lambda>(ctype, count).
                (ctype, round1 fa (fmul fa (truediv fa count total_lines) 100))) items)"
proof (induction items arbitrary: acc)
  case Nil
  show ?case by simp
next
  case (Cons a items)
  obtain ctype count where a: "a = (ctype, count)" by (cases a)
  let ?p = "round1 fa (fmul fa (truediv fa count total_lines) 100)"
  from Cons.prems have new: "ctype \<notin> set (map fst acc)"
    by (auto simp: a)
  from Cons.prems have "distinct (map fst (acc @ [(ctype, ?p)]) @ map fst items)"
    by (auto simp: a)
  from Cons.IH [OF this] new assms show ?case
    by (simp add: a percentage_def dict_set_new)
qed

lemma sum_list_close:
  fixes f g :: "'a \<Rightarrow> rat"
  assumes "\<forall>x \<in> set xs. \<bar>f x - g x\<bar> \<le> delta"
  shows "\<bar>sum_list (map f xs) - sum_list (map g xs)\<bar> \<le> of_nat (length xs) * delta"
  using assms
proof (induction xs)
  case Nil
  show ?case by simp
next
  case (Cons x xs)
  then have 1: "\<bar>f x - g x\<bar> \<le> delta"
    and 2: "\<bar>sum_list (map f xs) - sum_list (map g xs)\<bar> \<le> of_nat (length xs) * delta"
    by simp_all
  have "\<bar>sum_list (map f (x # xs)) - sum_list (map g (x # xs))\<bar>
      \<le> \<bar>f x - g x\<bar> + \<bar>sum_list (map f xs) - sum_list (map g xs)\<bar>"
    by simp
  also have "\<dots> \<le> delta + of_nat (length xs) * delta"
    using 1 2 by simp
  finally show ?case
    by (simp add: algebra_simps)
qed

lemma exact_shares_sum:
  assumes "dict_values_sum d \<noteq> 0"
  shows "sum_list (map (\<lambda>(c, n). (of_int n :: rat) * 100 / of_int (dict_values_sum d)) d) = 100"
proof -
  have "sum_list (map (\<lambda>(c, n). (of_int n :: rat) * 100 / of_int t) d)
      = of_int (dict_values_sum d) * 100 / of_int t" for t :: int
    by (induction d) (auto simp: dict_values_sum_def add_divide_distrib distrib_right)
  from this [of "dict_values_sum d"] assms show ?thesis
    by simp
qed

text \<open>
  C5. Let the float value of each percentage differ from the exact quotient
  \<open>count * 100 / total\<close> by at most \<open>delta\<close> (rounding to one decimal gives a
  twentieth, and the error of the float operations). Then \<open>get_total_stats\<close>
  returns without an exception; when the total of the classified lines is positive,
  every contribution type has the percentage \<open>round((count / total) * 100, 1)\<close>
  and the percentages add up to 100 within \<open>delta\<close> for each of them; when the
  total is zero, there is no percentage.
\<close>

theorem percentages_sum_to_100:
  assumes "\<forall>(c, n) \<in> set (merge_counts (map contribution_types (repos self))).
      \<bar>round1 fa (fmul fa (truediv fa n
            (dict_values_sum (merge_counts (map contribution_types (repos self))))) 100)
        - of_int n * 100
            / of_int (dict_values_sum (merge_counts (map contribution_types (repos self))))\<bar>
       \<le> delta"
  shows "\<exists>ts. get_total_stats fa self = Inr ts
     \<and> ts_contribution_types ts = merge_counts (map contribution_types (repos self))
     \<and> (0 < dict_values_sum (ts_contribution_types ts) \<longrightarrow>
          contribution_percentages ts
            = map (\<lambda>(ctype, count).
                (ctype, round1 fa (fmul fa
                   (truediv fa count (dict_values_sum (ts_contribution_types ts))) 100)))
                (ts_contribution_types ts)
          \<and> \<bar>sum_list (map snd (contribution_percentages ts)) - 100\<bar>
              \<le> of_nat (length (contribution_percentages ts)) * delta)
     \<and> (dict_values_sum (ts_contribution_types ts) = 0 \<longrightarrow> contribution_percentages ts = [])"
proof -
  let ?d = "merge_counts (map contribution_types (repos self))"
  let ?t = "dict_values_sum ?d"
  let ?pct = "\<lambda>(ctype :: ContributionType, count). round1 fa (fmul fa (truediv fa count ?t) 100)"
  let ?exact = "\<lambda>(ctype :: ContributionType, count). (of_int count :: rat) * 100 / of_int ?t"
  show ?thesis
  proof (cases "0 < ?t")
    case True
    then have nz: "?t \<noteq> 0" by simp
    have dist: "distinct (map fst ([] :: (ContributionType \<times> rat) list) @ map fst ?d)"
      using merge_counts_distinct [of "map contribution_types (repos self)"] by simp
    have loop: "percentages_loop fa ?t [] ?d
        = Inr (map (\<lambda>(ctype, count). (ctype, round1 fa (fmul fa (truediv fa count ?t) 100))) ?d)"
      using percentages_loop_map [OF nz dist, of fa] by simp
    have snd_eq: "map snd (map (\<lambda>(ctype, count).
          (ctype, round1 fa (fmul fa (truediv fa count ?t) 100))) ?d) = map ?pct ?d"
      by (simp add: case_prod_unfold)
    have close: "\<forall>x \<in> set ?d. \<bar>?pct x - ?exact x\<bar> \<le> delta"
      using assms by (auto simp: case_prod_unfold)
    have "\<bar>sum_list (map ?pct ?d) - sum_list (map ?exact ?d)\<bar> \<le> of_nat (length ?d) * delta"
      using close by (rule sum_list_close)
    then have bound: "\<bar>sum_list (map ?pct ?d) - 100\<bar> \<le> of_nat (length ?d) * delta"
      using exact_shares_sum [OF nz] by simp
    from True loop have "\<exists>ts. get_total_stats fa self = Inr ts
        \<and> ts_contribution_types ts = ?d
        \<and> contribution_percentages ts
            = map (\<lambda>(ctype, count). (ctype, round1 fa (fmul fa (truediv fa count ?t) 100))) ?d"
      by (simp add: get_total_stats_def Let_def)
    then obtain ts where ts: "get_total_stats fa self = Inr ts"
      and ct: "ts_contribution_types ts = ?d"
      and cp: "contribution_percentages ts
            = map (\<lambda>(ctype, count). (ctype, round1 fa (fmul fa (truediv fa count ?t) 100))) ?d"
      by blast
    have sums: "sum_list (map snd (contribution_percentages ts)) = sum_list (map ?pct ?d)"
      by (simp only: cp snd_eq)
    have len: "length (contribution_percentages ts) = length ?d"
      by (simp only: cp length_map)
    from bound have "\<bar>sum_list (map snd (contribution_percentages ts)) - 100\<bar>
        \<le> of_nat (length (contribution_percentages ts)) * delta"
      by (simp only: sums len)
    with ts ct cp True show ?thesis
      by (intro exI [of _ ts]) (simp only:, simp)
  next
    case False
    then show ?thesis
      by (simp add: get_total_stats_def Let_def)
  qed
qed

lemma round_half_even_error:
  "\<bar>of_int (round_half_even (x * 10)) / 10 - x\<bar> \<le> 1 / 20"
proof -
  define y where "y = x * 10"
  have lo: "of_int \<lfloor>y\<rfloor> \<le> y" and hi: "y < of_int \<lfloor>y\<rfloor> + 1"
    by linarith+
  have "\<bar>of_int (round_half_even y) - y\<bar> \<le> 1 / 2"
    using lo hi unfolding round_half_even_def Let_def
    by (auto simp: abs_le_iff)
  then have "\<bar>of_int (round_half_even y) / 10 - y / 10\<bar> \<le> 1 / 20"
    by linarith
  then show ?thesis
    by (simp add: y_def)
qed

lemma exact_arith_error:
  "\<bar>round1 exact_arith (fmul exact_arith (truediv exact_arith n t) 100)
     - of_int n * 100 / of_int t\<bar> \<le> 1 / 20"
  using round_half_even_error [of "of_int n / of_int t * 100"]
  by (simp add: exact_arith_def)

lemma example_total:
  "dict_values_sum (merge_counts (map contribution_types (repos analyzed))) = 18"
  by code_simp

lemma example_percentages:
  "map_sum id contribution_percentages (get_total_stats exact_arith analyzed)
     = Inr [(DOCUMENTATION, 167 / 10), (PRODUCTION_CODE, 278 / 5), (TESTS, 139 / 5)]"
  by code_simp

lemma empty_total:
  "dict_values_sum (merge_counts (map contribution_types (repos example_analyzer))) = 0"
  by (simp add: example_analyzer_def merge_counts_def dict_values_sum_def)

theorem percentages_sum_to_100_witness:
  "0 < dict_values_sum (merge_counts (map contribution_types (repos analyzed)))
   \<and> (\<exists>ts. get_total_stats exact_arith analyzed = Inr ts
          \<and> contribution_percentages ts
              = [(DOCUMENTATION, 167 / 10), (PRODUCTION_CODE, 278 / 5), (TESTS, 139 / 5)]
          \<and> \<bar>sum_list (map snd (contribution_percentages ts)) - 100\<bar> \<le> 3 * (1 / 20))
   \<and> dict_values_sum (merge_counts (map contribution_types (repos example_analyzer))) = 0
   \<and> (\<exists>ts. get_total_stats exact_arith example_analyzer = Inr ts
          \<and> contribution_percentages ts = [])"
proof -
  have hyp: "\<forall>(c, n) \<in> set (merge_counts (map contribution_types (repos a))).
      \<bar>round1 exact_arith (fmul exact_arith (truediv exact_arith n
            (dict_values_sum (merge_counts (map contribution_types (repos a))))) 100)
        - of_int n * 100
            / of_int (dict_values_sum (merge_counts (map contribution_types (repos a))))\<bar>
       \<le> 1 / 20" for a
    using exact_arith_error by auto
  from percentages_sum_to_100 [OF hyp, of analyzed]
  obtain ts where ts: "get_total_stats exact_arith analyzed = Inr ts"
    and ct: "ts_contribution_types ts = merge_counts (map contribution_types (repos analyzed))"
    and pos: "0 < dict_values_sum (ts_contribution_types ts) \<longrightarrow>
          \<bar>sum_list (map snd (contribution_percentages ts)) - 100\<bar>
              \<le> of_nat (length (contribution_percentages ts)) * (1 / 20)"
    by blast
  from example_percentages ts
  have cp: "contribution_percentages ts
      = [(DOCUMENTATION, 167 / 10), (PRODUCTION_CODE, 278 / 5), (TESTS, 139 / 5)]"
    by simp
  from pos ct example_total
  have "\<bar>sum_list (map snd (contribution_percentages ts)) - 100\<bar>
      \<le> of_nat (length (contribution_percentages ts)) * (1 / 20)"
    by simp
  then have bound: "\<bar>sum_list (map snd (contribution_percentages ts)) - 100\<bar> \<le> 3 * (1 / 20)"
    by (simp add: cp)
  from percentages_sum_to_100 [OF hyp, of example_analyzer]
  obtain ts0 where ts0: "get_total_stats exact_arith example_analyzer = Inr ts0"
    and ct0: "ts_contribution_types ts0
        = merge_counts (map contribution_types (repos example_analyzer))"
    and zero: "dict_values_sum (ts_contribution_types ts0) = 0 \<longrightarrow>
        contribution_percentages ts0 = []"
    by blast
  from zero ct0 empty_total have "contribution_percentages ts0 = []"
    by simp
  with ts0 ts cp bound example_total empty_total show ?thesis
    by auto
qed


end
